theory Spec2Isabelle
  imports Main
begin

section \<open>Decoded JSON and the Python operations the server applies to it\<close>

text \<open>
  A payload is whatever \<^verbatim>\<open>response.json()\<close> decodes: the server never checks its
  shape beyond the tests written in each tool, so the model keeps every JSON kind and
  writes out what Python does on each of them. A dict is an association list in key
  order; the first binding of a key is the one the dict holds. A float is kept as the
  two things the program can observe of it: whether it is nonzero, and its text.
  Strings are Isabelle strings; a character outside ASCII stands as its UTF-8 bytes.
\<close>

datatype json =
    JNull
  | JBool bool
  | JInt int
  | JFloat bool string
  | JStr string
  | JList "json list"
  | JObj "(string \<times> json) list"

text \<open>The exceptions the tools can raise past the gateway.
  \<open>RuntimeError\<close> is what a \<^verbatim>\<open>StopIteration\<close> raised inside a coroutine becomes.\<close>

datatype py_error = AttributeError | KeyError | TypeError | RuntimeError

type_synonym 'a result = "py_error + 'a"

definition bind_res :: "'a result \<Rightarrow> ('a \<Rightarrow> 'b result) \<Rightarrow> 'b result" where
  "bind_res m f = (case m of Inl e \<Rightarrow> Inl e | Inr x \<Rightarrow> f x)"

text \<open>A list comprehension whose body may raise: the first exception ends it.\<close>

fun mapM_res :: "('a \<Rightarrow> 'b result) \<Rightarrow> 'a list \<Rightarrow> 'b list result" where
  "mapM_res f [] = Inr []"
| "mapM_res f (x # xs) =
     (case f x of Inl e \<Rightarrow> Inl e
      | Inr y \<Rightarrow> (case mapM_res f xs of Inl e \<Rightarrow> Inl e | Inr ys \<Rightarrow> Inr (y # ys)))"

text \<open>Truth value of a decoded value, as \<^verbatim>\<open>not data\<close> tests it.\<close>

fun truthy :: "json \<Rightarrow> bool" where
  "truthy JNull = False"
| "truthy (JBool b) = b"
| "truthy (JInt i) = (i \<noteq> 0)"
| "truthy (JFloat nz t) = nz"
| "truthy (JStr s) = (s \<noteq> [])"
| "truthy (JList xs) = (xs \<noteq> [])"
| "truthy (JObj kvs) = (kvs \<noteq> [])"

text \<open>\<^verbatim>\<open>p in s\<close> on two strings: \<open>p\<close> occurs in \<open>s\<close>.\<close>

fun contains :: "string \<Rightarrow> string \<Rightarrow> bool" where
  "contains p [] = (p = [])"
| "contains p (c # cs) = (take (length p) (c # cs) = p \<or> contains p cs)"

text \<open>\<^verbatim>\<open>'k' in x\<close>: a key test on a dict, membership on a list, an occurrence test
  on a string, a TypeError on anything else.\<close>

fun py_in :: "string \<Rightarrow> json \<Rightarrow> bool result" where
  "py_in k (JObj kvs) = Inr (k \<in> set (map fst kvs))"
| "py_in k (JList xs) = Inr (JStr k \<in> set xs)"
| "py_in k (JStr s) = Inr (contains k s)"
| "py_in k JNull = Inl TypeError"
| "py_in k (JBool b) = Inl TypeError"
| "py_in k (JInt i) = Inl TypeError"
| "py_in k (JFloat nz t) = Inl TypeError"

text \<open>\<^verbatim>\<open>x['k']\<close>: KeyError on a dict without the key, TypeError on every other kind
  (a list or a string wants an integer index, the rest cannot be subscripted).\<close>

fun subscript :: "json \<Rightarrow> string \<Rightarrow> json result" where
  "subscript (JObj kvs) k = (case map_of kvs k of None \<Rightarrow> Inl KeyError | Some v \<Rightarrow> Inr v)"
| "subscript JNull k = Inl TypeError"
| "subscript (JBool b) k = Inl TypeError"
| "subscript (JInt i) k = Inl TypeError"
| "subscript (JFloat nz t) k = Inl TypeError"
| "subscript (JStr s) k = Inl TypeError"
| "subscript (JList xs) k = Inl TypeError"

text \<open>\<^verbatim>\<open>x.get('k', d)\<close>: only a dict has the method.\<close>

fun dict_get :: "json \<Rightarrow> string \<Rightarrow> json \<Rightarrow> json result" where
  "dict_get (JObj kvs) k d = Inr (case map_of kvs k of None \<Rightarrow> d | Some v \<Rightarrow> v)"
| "dict_get JNull k d = Inl AttributeError"
| "dict_get (JBool b) k d = Inl AttributeError"
| "dict_get (JInt i) k d = Inl AttributeError"
| "dict_get (JFloat nz t) k d = Inl AttributeError"
| "dict_get (JStr s) k d = Inl AttributeError"
| "dict_get (JList xs) k d = Inl AttributeError"

text \<open>\<^verbatim>\<open>s.replace(old, new)\<close>: every occurrence of \<open>old\<close>, found from the left and
  not overlapping, becomes \<open>new\<close>.\<close>

function replace_str :: "string \<Rightarrow> string \<Rightarrow> string \<Rightarrow> string" where
  "replace_str old new [] = (if old = [] then new else [])"
| "replace_str old new (c # cs) =
     (if old = [] then new @ c # replace_str old new cs
      else if take (length old) (c # cs) = old
        then new @ replace_str old new (drop (length old) (c # cs))
      else c # replace_str old new cs)"
  by pat_completeness auto
termination
  by (relation "measure (\<lambda>(old, new, s). length s)") (auto simp: neq_Nil_conv)

text \<open>\<^verbatim>\<open>x.replace(old, new)\<close> on a decoded value: only a string has the method.\<close>

fun replace_method :: "json \<Rightarrow> string \<Rightarrow> string \<Rightarrow> string result" where
  "replace_method (JStr s) old new = Inr (replace_str old new s)"
| "replace_method JNull old new = Inl AttributeError"
| "replace_method (JBool b) old new = Inl AttributeError"
| "replace_method (JInt i) old new = Inl AttributeError"
| "replace_method (JFloat nz t) old new = Inl AttributeError"
| "replace_method (JList xs) old new = Inl AttributeError"
| "replace_method (JObj kvs) old new = Inl AttributeError"

text \<open>\<^verbatim>\<open>for x in v\<close>: the elements of a list, the keys of a dict, the characters of
  a string; nothing else can be iterated.\<close>

fun py_iter :: "json \<Rightarrow> json list result" where
  "py_iter (JList xs) = Inr xs"
| "py_iter (JObj kvs) = Inr (map JStr (remdups (map fst kvs)))"
| "py_iter (JStr s) = Inr (map (\<lambda>c. JStr [c]) s)"
| "py_iter JNull = Inl TypeError"
| "py_iter (JBool b) = Inl TypeError"
| "py_iter (JInt i) = Inl TypeError"
| "py_iter (JFloat nz t) = Inl TypeError"

text \<open>\<^verbatim>\<open>for x in v[:n]\<close> with \<open>n\<close> a literal: a list or a string can be sliced; a
  dict cannot (a slice is no key of it: a TypeError before Python 3.12, where a slice
  cannot be hashed, and a KeyError from 3.12 on; the model keeps the TypeError); the rest
  cannot be subscripted.\<close>

fun py_iter_slice :: "nat \<Rightarrow> json \<Rightarrow> json list result" where
  "py_iter_slice n (JList xs) = Inr (take n xs)"
| "py_iter_slice n (JStr s) = Inr (map (\<lambda>c. JStr [c]) (take n s))"
| "py_iter_slice n (JObj kvs) = Inl TypeError"
| "py_iter_slice n JNull = Inl TypeError"
| "py_iter_slice n (JBool b) = Inl TypeError"
| "py_iter_slice n (JInt i) = Inl TypeError"
| "py_iter_slice n (JFloat nz t) = Inl TypeError"

text \<open>\<^verbatim>\<open>xs[:n]\<close> on a list with \<open>n\<close> any integer: a negative \<open>n\<close> counts from the end.\<close>

definition py_slice_to :: "int \<Rightarrow> 'a list \<Rightarrow> 'a list" where
  "py_slice_to n xs = (if 0 \<le> n then take (nat n) xs else take (length xs - nat (- n)) xs)"

text \<open>\<^verbatim>\<open>next(iter(d.values()))\<close>: the first value of a dict; a dict with no entry
  raises \<^verbatim>\<open>StopIteration\<close>, which leaves the coroutine as a RuntimeError; only a
  dict has \<^verbatim>\<open>values\<close>.\<close>

fun first_value :: "json \<Rightarrow> json result" where
  "first_value (JObj []) = Inl RuntimeError"
| "first_value (JObj (kv # kvs)) = Inr (snd kv)"
| "first_value JNull = Inl AttributeError"
| "first_value (JBool b) = Inl AttributeError"
| "first_value (JInt i) = Inl AttributeError"
| "first_value (JFloat nz t) = Inl AttributeError"
| "first_value (JStr s) = Inl AttributeError"
| "first_value (JList xs) = Inl AttributeError"

subsection \<open>Rendering values into text\<close>

fun show_nat :: "nat \<Rightarrow> string" where
  "show_nat n =
     (if n < 10 then [''0123456789'' ! n]
      else show_nat (n div 10) @ [''0123456789'' ! (n mod 10)])"

declare show_nat.simps [simp del]

definition show_int :: "int \<Rightarrow> string" where
  "show_int i = (if i < 0 then ''-'' @ show_nat (nat (- i)) else show_nat (nat i))"

text \<open>What an f-string puts for a value: a string as it is, \<^verbatim>\<open>None\<close>, a boolean and
  an integer by their Python text, a float by its text. The text of a list or of a dict
  is the interpreter's \<^verbatim>\<open>repr\<close>, taken as the parameter \<open>rp\<close>.\<close>

fun py_str :: "(json \<Rightarrow> string) \<Rightarrow> json \<Rightarrow> string" where
  "py_str rp (JStr s) = s"
| "py_str rp JNull = ''None''"
| "py_str rp (JBool b) = (if b then ''True'' else ''False'')"
| "py_str rp (JInt i) = show_int i"
| "py_str rp (JFloat nz t) = t"
| "py_str rp (JList xs) = rp (JList xs)"
| "py_str rp (JObj kvs) = rp (JObj kvs)"

text \<open>\<^verbatim>\<open>sep.join(xs)\<close>\<close>

fun join_str :: "string \<Rightarrow> string list \<Rightarrow> string" where
  "join_str sep [] = []"
| "join_str sep [x] = x"
| "join_str sep (x # y # ys) = x @ sep @ join_str sep (y # ys)"

text \<open>\<^verbatim>\<open>'{t}'\<close> inside an f-string.\<close>

definition quoted :: "string \<Rightarrow> string" where
  "quoted t = CHR 0x27 # t @ [CHR 0x27]"

section \<open>The gateway client\<close>

type_synonym params = "(string \<times> json) list"

record request =
  url :: string
  headers :: "(string \<times> string) list"
  params :: "params option"
  timeout :: nat

text \<open>What the three library calls of the gateway (\<^verbatim>\<open>get\<close>, \<^verbatim>\<open>raise_for_status\<close>,
  \<^verbatim>\<open>json\<close>) come to for one request: an exception, or the decoded body.\<close>

datatype http_failure = Timeout | ConnectError | HTTPStatusError nat | JSONDecodeError

datatype http_outcome = Raised http_failure | Decoded json

type_synonym network = "request \<Rightarrow> http_outcome"

definition WIKIPEDIA_API_BASE :: string where
  "WIKIPEDIA_API_BASE = ''https://en.wikipedia.org/api/rest_v1''"

definition WIKIPEDIA_SEARCH_API :: string where
  "WIKIPEDIA_SEARCH_API = ''https://en.wikipedia.org/w/api.php''"

definition USER_AGENT :: string where
  "USER_AGENT = ''wikipedia-mcp/1.0''"

text \<open>The request the gateway builds: the fixed headers and the 30 second timeout.\<close>

definition wikipedia_request :: "string \<Rightarrow> params option \<Rightarrow> request" where
  "wikipedia_request u ps =
     \<lparr>url = u, headers = [(''User-Agent'', USER_AGENT), (''Accept'', ''application/json'')],
      params = ps, timeout = 30\<rparr>"

text \<open>The \<^verbatim>\<open>try\<close> block: any exception becomes \<^verbatim>\<open>None\<close>, which is \<open>JNull\<close> here, so
  a failed request and a body that is the JSON \<^verbatim>\<open>null\<close> give the caller the same value.\<close>

definition payload_of :: "http_outcome \<Rightarrow> json" where
  "payload_of out = (case out of Raised e \<Rightarrow> JNull | Decoded j \<Rightarrow> j)"

text \<open>The gateway takes the requests sent so far and returns them with its own added,
  beside the payload.\<close>

definition make_wikipedia_request ::
  "network \<Rightarrow> request list \<Rightarrow> string \<Rightarrow> params option \<Rightarrow> request list \<times> json" where
  "make_wikipedia_request net sent u ps =
     (let req = wikipedia_request u ps in (sent @ [req], payload_of (net req)))"

section \<open>The formatters\<close>

definition span_open :: string where
  \<open>span_open = ''<span class="searchmatch">''\<close>

definition span_close :: string where
  "span_close = ''</span>''"

definition format_search_result :: "(json \<Rightarrow> string) \<Rightarrow> json \<Rightarrow> string result" where
  "format_search_result rp page =
     bind_res (dict_get page ''title'' (JStr ''Unknown'')) (\<lambda>title.
     bind_res (dict_get page ''snippet'' (JStr ''No description available'')) (\<lambda>raw.
     bind_res (replace_method raw span_open '''') (\<lambda>s1.
     bind_res (replace_method (JStr s1) span_close '''') (\<lambda>snippet.
     bind_res (replace_method title '' '' ''_'') (\<lambda>segment.
     Inr (''Title: '' @ py_str rp title @ ''\<newline>Description: '' @ snippet
          @ ''\<newline>URL: https://en.wikipedia.org/wiki/'' @ segment))))))"

definition format_article_summary :: "(json \<Rightarrow> string) \<Rightarrow> json \<Rightarrow> string result" where
  "format_article_summary rp data =
     bind_res (dict_get data ''title'' (JStr ''Unknown'')) (\<lambda>title.
     bind_res (dict_get data ''extract'' (JStr ''No summary available'')) (\<lambda>extract.
     bind_res (dict_get data ''content_urls'' (JObj [])) (\<lambda>cu.
     bind_res (dict_get cu ''desktop'' (JObj [])) (\<lambda>desktop.
     bind_res (dict_get desktop ''page'' (JStr '''')) (\<lambda>content_urls.
     Inr (''Title: '' @ py_str rp title @ ''\<newline>Summary: '' @ py_str rp extract
          @ ''\<newline>URL: '' @ py_str rp content_urls))))))"

definition format_section :: "(json \<Rightarrow> string) \<Rightarrow> json \<Rightarrow> string result" where
  "format_section rp section =
     bind_res (dict_get section ''line'' (JStr ''Unknown Section'')) (\<lambda>line.
     Inr (''- '' @ py_str rp line))"

definition format_article_sections :: "(json \<Rightarrow> string) \<Rightarrow> json \<Rightarrow> string result" where
  "format_article_sections rp sections =
     (if \<not> truthy sections then Inr ''No sections found.''
      else
        bind_res (py_iter_slice 10 sections) (\<lambda>first10.
        bind_res (mapM_res (format_section rp) first10) (\<lambda>formatted_sections.
        Inr (join_str ''\<newline>'' formatted_sections))))"

section \<open>The six tools\<close>

text \<open>Each tool returns the requests it sent, in order, and either its text or the
  exception it raised.\<close>

definition search_params :: "string \<Rightarrow> int \<Rightarrow> params" where
  "search_params query limit =
     [(''action'', JStr ''query''), (''format'', JStr ''json''), (''list'', JStr ''search''),
      (''srsearch'', JStr query), (''srlimit'', JInt (min limit 20))]"

definition search_wikipedia ::
  "(json \<Rightarrow> string) \<Rightarrow> network \<Rightarrow> string \<Rightarrow> int \<Rightarrow> request list \<times> string result" where
  "search_wikipedia rp net query limit =
     (let (sent, data) =
            make_wikipedia_request net [] WIKIPEDIA_SEARCH_API (Some (search_params query limit));
          unable = Inr ''Unable to search Wikipedia or no results found.''
      in (sent,
          if \<not> truthy data then unable
          else
            bind_res (py_in ''query'' data) (\<lambda>has_query.
            if \<not> has_query then unable
            else
              bind_res (subscript data ''query'') (\<lambda>q.
              bind_res (py_in ''search'' q) (\<lambda>has_search.
              if \<not> has_search then unable
              else
                bind_res (subscript q ''search'') (\<lambda>search_results.
                if \<not> truthy search_results
                then Inr (''No Wikipedia articles found for query: '' @ quoted query)
                else
                  bind_res (py_iter search_results) (\<lambda>hits.
                  bind_res (mapM_res (format_search_result rp) hits) (\<lambda>results.
                  Inr (''Found '' @ show_nat (length results)
                       @ '' Wikipedia articles:\<newline>\<newline>''
                       @ join_str ''\<newline>---\<newline>'' results)))))))))"

text \<open>The two REST paths of a title, its spaces turned into underscores.\<close>

definition summary_url :: "string \<Rightarrow> string" where
  "summary_url title = WIKIPEDIA_API_BASE @ ''/page/summary/'' @ replace_str '' '' ''_'' title"

definition sections_url :: "string \<Rightarrow> string" where
  "sections_url title = WIKIPEDIA_API_BASE @ ''/page/sections/'' @ replace_str '' '' ''_'' title"

definition get_wikipedia_article ::
  "(json \<Rightarrow> string) \<Rightarrow> network \<Rightarrow> string \<Rightarrow> request list \<times> string result" where
  "get_wikipedia_article rp net title =
     (let (sent1, summary_data) = make_wikipedia_request net [] (summary_url title) None
      in if \<not> truthy summary_data
         then (sent1, Inr (''Unable to fetch Wikipedia article '' @ quoted title
                           @ ''. Article may not exist.''))
         else
           (let (sent2, sections_data) =
                  make_wikipedia_request net sent1 (sections_url title) None
            in (sent2,
                bind_res (format_article_summary rp summary_data) (\<lambda>article_info.
                if \<not> truthy sections_data then Inr article_info
                else
                  bind_res (dict_get sections_data ''sections'' JNull) (\<lambda>secs.
                  if \<not> truthy secs then Inr article_info
                  else
                    bind_res (subscript sections_data ''sections'') (\<lambda>secs2.
                    bind_res (format_article_sections rp secs2) (\<lambda>sections_list.
                    Inr (article_info @ ''\<newline>\<newline>Sections:\<newline>'' @ sections_list))))))))"

definition get_wikipedia_summary ::
  "(json \<Rightarrow> string) \<Rightarrow> network \<Rightarrow> string \<Rightarrow> request list \<times> string result" where
  "get_wikipedia_summary rp net title =
     (let (sent, data) = make_wikipedia_request net [] (summary_url title) None
      in (sent,
          if \<not> truthy data
          then Inr (''Unable to fetch summary for Wikipedia article '' @ quoted title @ ''.'')
          else format_article_summary rp data))"

definition get_wikipedia_sections ::
  "(json \<Rightarrow> string) \<Rightarrow> network \<Rightarrow> string \<Rightarrow> request list \<times> string result" where
  "get_wikipedia_sections rp net title =
     (let (sent, data) = make_wikipedia_request net [] (sections_url title) None;
          unable = Inr (''Unable to fetch sections for Wikipedia article '' @ quoted title @ ''.'')
      in (sent,
          if \<not> truthy data then unable
          else
            bind_res (py_in ''sections'' data) (\<lambda>has_sections.
            if \<not> has_sections then unable
            else
              bind_res (subscript data ''sections'') (\<lambda>sections.
              bind_res (format_article_sections rp sections) (\<lambda>formatted_sections.
              Inr (''Sections for '' @ quoted title @ '':\<newline>'' @ formatted_sections))))))"

definition links_params :: "string \<Rightarrow> int \<Rightarrow> params" where
  "links_params title limit =
     [(''action'', JStr ''query''), (''format'', JStr ''json''), (''titles'', JStr title),
      (''prop'', JStr ''links''), (''pllimit'', JInt (min limit 50))]"

definition get_wikipedia_links ::
  "(json \<Rightarrow> string) \<Rightarrow> network \<Rightarrow> string \<Rightarrow> int \<Rightarrow> request list \<times> string result" where
  "get_wikipedia_links rp net title limit =
     (let (sent, data) =
            make_wikipedia_request net [] WIKIPEDIA_SEARCH_API (Some (links_params title limit));
          unable = Inr (''Unable to fetch links for Wikipedia article '' @ quoted title @ ''.'')
      in (sent,
          if \<not> truthy data then unable
          else
            bind_res (py_in ''query'' data) (\<lambda>has_query.
            if \<not> has_query then unable
            else
              bind_res (subscript data ''query'') (\<lambda>q.
              bind_res (py_in ''pages'' q) (\<lambda>has_pages.
              if \<not> has_pages then unable
              else
                bind_res (subscript q ''pages'') (\<lambda>pages.
                bind_res (first_value pages) (\<lambda>page.
                bind_res (py_in ''links'' page) (\<lambda>has_links.
                if \<not> has_links
                then Inr (''No links found in Wikipedia article '' @ quoted title @ ''.'')
                else
                  bind_res (subscript page ''links'') (\<lambda>page_links.
                  bind_res (py_iter page_links) (\<lambda>entries.
                  bind_res (mapM_res (\<lambda>link. subscript link ''title'') entries) (\<lambda>links.
                  Inr (''Links in '' @ quoted title @ '' (showing '' @ show_nat (length links)
                       @ '' links):\<newline>''
                       @ join_str ''\<newline>'' (map (\<lambda>link. ''- '' @ py_str rp link) links)))))))))))))"

definition categories_params :: "string \<Rightarrow> params" where
  "categories_params title =
     [(''action'', JStr ''query''), (''format'', JStr ''json''), (''titles'', JStr title),
      (''prop'', JStr ''categories''), (''cllimit'', JInt 20)]"

definition get_related_topics :: "network \<Rightarrow> string \<Rightarrow> int \<Rightarrow> request list \<times> string result" where
  "get_related_topics net title limit =
     (let (sent, data) =
            make_wikipedia_request net [] WIKIPEDIA_SEARCH_API (Some (categories_params title));
          unable = Inr (''Unable to fetch related topics for Wikipedia article ''
                        @ quoted title @ ''.'')
      in (sent,
          if \<not> truthy data then unable
          else
            bind_res (py_in ''query'' data) (\<lambda>has_query.
            if \<not> has_query then unable
            else
              bind_res (subscript data ''query'') (\<lambda>q.
              bind_res (py_in ''pages'' q) (\<lambda>has_pages.
              if \<not> has_pages then unable
              else
                bind_res (subscript q ''pages'') (\<lambda>pages.
                bind_res (first_value pages) (\<lambda>page.
                bind_res (py_in ''categories'' page) (\<lambda>has_categories.
                if \<not> has_categories
                then Inr (''No categories found for Wikipedia article '' @ quoted title @ ''.'')
                else
                  bind_res (subscript page ''categories'') (\<lambda>page_categories.
                  bind_res (py_iter page_categories) (\<lambda>entries.
                  bind_res (mapM_res (\<lambda>cat.
                              bind_res (subscript cat ''title'') (\<lambda>t.
                              replace_method t ''Category:'' '''')) entries) (\<lambda>categories.
                  Inr (''Topics related to '' @ quoted title @ '':\<newline>''
                       @ join_str ''\<newline>''
                           (map (\<lambda>topic. ''- '' @ topic) (py_slice_to limit categories))))))))))))))"

section \<open>The spec's words, for comparison\<close>

text \<open>A snippet as the spec describes it: plain text with highlight marks in it.
  \<open>render\<close> is the snippet as Wikipedia sends it, \<open>plain_text\<close> what is to be shown.\<close>

datatype piece = Plain string | Open_mark | Close_mark

fun render :: "piece list \<Rightarrow> string" where
  "render [] = []"
| "render (Plain s # ps) = s @ render ps"
| "render (Open_mark # ps) = span_open @ render ps"
| "render (Close_mark # ps) = span_close @ render ps"

fun plain_text :: "piece list \<Rightarrow> string" where
  "plain_text [] = []"
| "plain_text (Plain s # ps) = s @ plain_text ps"
| "plain_text (Open_mark # ps) = plain_text ps"
| "plain_text (Close_mark # ps) = plain_text ps"

fun markup_free :: "piece \<Rightarrow> bool" where
  "markup_free (Plain s) = (CHR ''<'' \<notin> set s)"
| "markup_free Open_mark = True"
| "markup_free Close_mark = True"

text \<open>"Strip the literal prefix", as the spec words what is done to a category title.\<close>

definition spec_strip_prefix :: "string \<Rightarrow> string \<Rightarrow> string" where
  "spec_strip_prefix p s = (if take (length p) s = p then drop (length p) s else s)"

text \<open>The value a request carries for a query parameter.\<close>

definition sent_param :: "string \<Rightarrow> request \<Rightarrow> json option" where
  "sent_param k r = (case params r of None \<Rightarrow> None | Some ps \<Rightarrow> map_of ps k)"

section \<open>Every request fails\<close>

lemma make_wikipedia_request_eq:
  "make_wikipedia_request net sent u ps =
     (sent @ [wikipedia_request u ps], payload_of (net (wikipedia_request u ps)))"
  by (simp add: make_wikipedia_request_def Let_def)

lemma payload_of_all_failed:
  "(\<And>req. \<exists>e. net req = Raised e) \<Longrightarrow> payload_of (net r) = JNull"
proof -
  assume "\<And>req. \<exists>e. net req = Raised e"
  then obtain e where "net r = Raised e" by blast
  then show ?thesis by (simp add: payload_of_def)
qed

text \<open>
  C1. When every HTTP request fails (whatever the exception: a timeout, a transport
  error, the error raised for a 404 or a 500, an undecodable body), each of the six
  tools returns its own fallback text, as a value and not as an exception.
\<close>

theorem all_requests_fail_fallback:
  assumes "\<And>req. \<exists>e. net req = Raised e"
  shows "snd (search_wikipedia rp net query limit)
           = Inr ''Unable to search Wikipedia or no results found.''
       \<and> snd (get_wikipedia_article rp net title)
           = Inr (''Unable to fetch Wikipedia article '' @ quoted title
                  @ ''. Article may not exist.'')
       \<and> snd (get_wikipedia_summary rp net title)
           = Inr (''Unable to fetch summary for Wikipedia article '' @ quoted title @ ''.'')
       \<and> snd (get_wikipedia_sections rp net title)
           = Inr (''Unable to fetch sections for Wikipedia article '' @ quoted title @ ''.'')
       \<and> snd (get_wikipedia_links rp net title limit)
           = Inr (''Unable to fetch links for Wikipedia article '' @ quoted title @ ''.'')
       \<and> snd (get_related_topics net title limit)
           = Inr (''Unable to fetch related topics for Wikipedia article ''
                  @ quoted title @ ''.'')"
proof -
  have absent: "payload_of (net r) = JNull" for r
    using assms by (rule payload_of_all_failed)
  have 1: "snd (search_wikipedia rp net query limit)
           = Inr ''Unable to search Wikipedia or no results found.''"
    by (simp add: search_wikipedia_def make_wikipedia_request_eq absent)
  have 2: "snd (get_wikipedia_article rp net title)
           = Inr (''Unable to fetch Wikipedia article '' @ quoted title
                  @ ''. Article may not exist.'')"
    by (simp add: get_wikipedia_article_def make_wikipedia_request_eq absent)
  have 3: "snd (get_wikipedia_summary rp net title)
           = Inr (''Unable to fetch summary for Wikipedia article '' @ quoted title @ ''.'')"
    by (simp add: get_wikipedia_summary_def make_wikipedia_request_eq absent)
  have 4: "snd (get_wikipedia_sections rp net title)
           = Inr (''Unable to fetch sections for Wikipedia article '' @ quoted title @ ''.'')"
    by (simp add: get_wikipedia_sections_def make_wikipedia_request_eq absent)
  have 5: "snd (get_wikipedia_links rp net title limit)
           = Inr (''Unable to fetch links for Wikipedia article '' @ quoted title @ ''.'')"
    by (simp add: get_wikipedia_links_def make_wikipedia_request_eq absent)
  have 6: "snd (get_related_topics net title limit)
           = Inr (''Unable to fetch related topics for Wikipedia article ''
                  @ quoted title @ ''.'')"
    by (simp add: get_related_topics_def make_wikipedia_request_eq absent)
  from 1 2 3 4 5 6 show ?thesis by blast
qed

theorem all_requests_fail_fallback_witness:
  "(\<forall>req. \<exists>e. (\<lambda>r. Raised (HTTPStatusError 404)) req = Raised e)
   \<and> snd (search_wikipedia (\<lambda>v. []) (\<lambda>r. Raised (HTTPStatusError 404)) ''cats'' 10)
       = Inr ''Unable to search Wikipedia or no results found.''
   \<and> snd (get_wikipedia_article (\<lambda>v. []) (\<lambda>r. Raised (HTTPStatusError 404)) ''Cat'')
       = Inr ''Unable to fetch Wikipedia article 'Cat'. Article may not exist.''
   \<and> snd (get_wikipedia_summary (\<lambda>v. []) (\<lambda>r. Raised (HTTPStatusError 404)) ''Cat'')
       = Inr ''Unable to fetch summary for Wikipedia article 'Cat'.''
   \<and> snd (get_wikipedia_sections (\<lambda>v. []) (\<lambda>r. Raised (HTTPStatusError 404)) ''Cat'')
       = Inr ''Unable to fetch sections for Wikipedia article 'Cat'.''
   \<and> snd (get_wikipedia_links (\<lambda>v. []) (\<lambda>r. Raised (HTTPStatusError 404)) ''Cat'' 10)
       = Inr ''Unable to fetch links for Wikipedia article 'Cat'.''
   \<and> snd (get_related_topics (\<lambda>r. Raised (HTTPStatusError 404)) ''Cat'' 10)
       = Inr ''Unable to fetch related topics for Wikipedia article 'Cat'.''"
  using all_requests_fail_fallback
          [of "\<lambda>r. Raised (HTTPStatusError 404)" "\<lambda>v. []" "''cats''" 10 "''Cat''"]
  by (simp add: quoted_def)

section \<open>What is sent\<close>


lemma search_wikipedia_sent:
  "fst (search_wikipedia rp net query limit)
     = [wikipedia_request WIKIPEDIA_SEARCH_API (Some (search_params query limit))]"
  by (simp add: search_wikipedia_def make_wikipedia_request_eq Let_def)

lemma get_wikipedia_links_sent:
  "fst (get_wikipedia_links rp net title limit)
     = [wikipedia_request WIKIPEDIA_SEARCH_API (Some (links_params title limit))]"
  by (simp add: get_wikipedia_links_def make_wikipedia_request_eq Let_def)

lemma get_related_topics_sent:
  "fst (get_related_topics net title limit)
     = [wikipedia_request WIKIPEDIA_SEARCH_API (Some (categories_params title))]"
  by (simp add: get_related_topics_def make_wikipedia_request_eq Let_def)

text \<open>
  C5. The search tool sends \<open>srlimit = min(limit, 20)\<close> and the links tool sends
  \<open>pllimit = min(limit, 50)\<close>: a limit above the cap is sent as the cap (100 as 20), and
  any other limit, zero and negative ones too, is sent as it is (0 as 0).
\<close>

theorem request_limit_capped:
  "map (sent_param ''srlimit'') (fst (search_wikipedia rp net query limit))
     = [Some (JInt (if 20 < limit then 20 else limit))]
   \<and> map (sent_param ''pllimit'') (fst (get_wikipedia_links rp net title limit))
     = [Some (JInt (if 50 < limit then 50 else limit))]
   \<and> map (sent_param ''srlimit'') (fst (search_wikipedia rp net query 100)) = [Some (JInt 20)]
   \<and> map (sent_param ''pllimit'') (fst (get_wikipedia_links rp net title 0)) = [Some (JInt 0)]"
  by (simp add: search_wikipedia_sent get_wikipedia_links_sent
      sent_param_def wikipedia_request_def search_params_def links_params_def min_def)

theorem request_limit_capped_witness:
  "map (sent_param ''srlimit'') (fst (search_wikipedia (\<lambda>v. []) (\<lambda>r. Raised Timeout) ''cats'' 100))
     = [Some (JInt 20)]
   \<and> map (sent_param ''srlimit'') (fst (search_wikipedia (\<lambda>v. []) (\<lambda>r. Raised Timeout) ''cats'' (- 3)))
     = [Some (JInt (- 3))]
   \<and> map (sent_param ''pllimit'') (fst (get_wikipedia_links (\<lambda>v. []) (\<lambda>r. Raised Timeout) ''Cat'' 0))
     = [Some (JInt 0)]
   \<and> map (sent_param ''pllimit'') (fst (get_wikipedia_links (\<lambda>v. []) (\<lambda>r. Raised Timeout) ''Cat'' 51))
     = [Some (JInt 50)]"
  using request_limit_capped [of "\<lambda>v. []" "\<lambda>r. Raised Timeout" "''cats''" 100 "''Cat''"]
    request_limit_capped [of "\<lambda>v. []" "\<lambda>r. Raised Timeout" "''cats''" "- 3" "''Cat''"]
    request_limit_capped [of "\<lambda>v. []" "\<lambda>r. Raised Timeout" "''cats''" 51 "''Cat''"]
  by simp

section \<open>Payloads on which a tool raises\<close>

text \<open>
  C2. The claim that no tool ever raises does not hold of the code: on a payload whose
  \<open>query.pages\<close> is an empty mapping, the links tool and the related-topics tool raise
  (the \<^verbatim>\<open>StopIteration\<close> of \<^verbatim>\<open>next\<close>, a RuntimeError once it leaves the coroutine), and on
  a link or category entry without a \<open>title\<close> they raise KeyError.
\<close>

theorem links_and_topics_raise:
  "snd (get_wikipedia_links (\<lambda>v. [])
          (\<lambda>r. Decoded (JObj [(''query'', JObj [(''pages'', JObj [])])])) ''Cat'' 20)
     = Inl RuntimeError
   \<and> snd (get_wikipedia_links (\<lambda>v. [])
          (\<lambda>r. Decoded (JObj [(''query'', JObj [(''pages'',
                  JObj [(''42'', JObj [(''links'', JList [JObj [(''ns'', JInt 0)]])])])])]))
          ''Cat'' 20)
     = Inl KeyError
   \<and> snd (get_related_topics
          (\<lambda>r. Decoded (JObj [(''query'', JObj [(''pages'', JObj [])])])) ''Cat'' 10)
     = Inl RuntimeError
   \<and> snd (get_related_topics
          (\<lambda>r. Decoded (JObj [(''query'', JObj [(''pages'',
                  JObj [(''42'', JObj [(''categories'', JList [JObj [(''ns'', JInt 14)]])])])])]))
          ''Cat'' 10)
     = Inl KeyError"
  by (simp add: get_wikipedia_links_def get_related_topics_def make_wikipedia_request_eq
      payload_of_def bind_res_def Let_def)

section \<open>Search\<close>



lemma map_of_Some_key: "map_of kvs k = Some v \<Longrightarrow> k \<in> set (map fst kvs)"
  by (metis map_of_eq_None_iff option.distinct(1) set_map)

lemma map_of_Some_nonempty: "map_of kvs k = Some v \<Longrightarrow> kvs \<noteq> []"
  by auto

lemma mapM_res_length: "mapM_res f xs = Inr ys \<Longrightarrow> length ys = length xs"
  by (induction xs arbitrary: ys) (auto split: sum.splits)

lemma search_wikipedia_hits:
  assumes "payload_of (net (wikipedia_request WIKIPEDIA_SEARCH_API
                              (Some (search_params query limit)))) = JObj obj"
      and "map_of obj ''query'' = Some (JObj q)"
      and "map_of q ''search'' = Some (JList hits)"
  shows "snd (search_wikipedia rp net query limit) =
           (if hits = [] then Inr (''No Wikipedia articles found for query: '' @ quoted query)
            else bind_res (mapM_res (format_search_result rp) hits) (\<lambda>results.
                 Inr (''Found '' @ show_nat (length results)
                       @ '' Wikipedia articles:\<newline>\<newline>''
                       @ join_str ''\<newline>---\<newline>'' results)))"
  using assms map_of_Some_key [OF assms(2)] map_of_Some_key [OF assms(3)]
    map_of_Some_nonempty [OF assms(2)]
  by (simp add: search_wikipedia_def make_wikipedia_request_eq Let_def bind_res_def)

text \<open>
  C4. When the payload is a mapping that holds \<open>query.search\<close>: an empty list gives the
  no-results text for the query, which differs from the request-failure text; a list of
  N hits whose entries format gives "Found N Wikipedia articles:", an empty line, and the
  formatted entries joined by a line of three dashes.
\<close>

theorem search_found_or_empty:
  assumes "payload_of (net (wikipedia_request WIKIPEDIA_SEARCH_API
                              (Some (search_params query limit)))) = JObj obj"
      and "map_of obj ''query'' = Some (JObj q)"
      and "map_of q ''search'' = Some (JList hits)"
  shows "(hits = [] \<longrightarrow>
            snd (search_wikipedia rp net query limit)
              = Inr (''No Wikipedia articles found for query: '' @ quoted query))
       \<and> ''No Wikipedia articles found for query: '' @ quoted query
            \<noteq> ''Unable to search Wikipedia or no results found.''
       \<and> (hits \<noteq> [] \<longrightarrow> mapM_res (format_search_result rp) hits = Inr entries \<longrightarrow>
            length entries = length hits
            \<and> snd (search_wikipedia rp net query limit)
              = Inr (''Found '' @ show_nat (length hits) @ '' Wikipedia articles:\<newline>\<newline>''
                     @ join_str ''\<newline>---\<newline>'' entries))"
proof -
  note r = search_wikipedia_hits [where net = net and rp = rp, OF assms]
  have a: "hits = [] \<longrightarrow>
            snd (search_wikipedia rp net query limit)
              = Inr (''No Wikipedia articles found for query: '' @ quoted query)"
    by (simp add: r)
  have b: "''No Wikipedia articles found for query: '' @ quoted query
            \<noteq> ''Unable to search Wikipedia or no results found.''"
    by simp
  have c: "hits \<noteq> [] \<longrightarrow> mapM_res (format_search_result rp) hits = Inr entries \<longrightarrow>
            length entries = length hits
            \<and> snd (search_wikipedia rp net query limit)
              = Inr (''Found '' @ show_nat (length hits) @ '' Wikipedia articles:\<newline>\<newline>''
                     @ join_str ''\<newline>---\<newline>'' entries)"
    using mapM_res_length [of "format_search_result rp" hits entries]
    by (simp add: r bind_res_def)
  from a b c show ?thesis by blast
qed

theorem search_found_or_empty_witness:
  "snd (search_wikipedia (\<lambda>v. [])
         (\<lambda>r. Decoded (JObj [(''query'', JObj [(''search'', JList
            [JObj [(''title'', JStr ''Test''),
                   (''snippet'', JStr (''A '' @ span_open @ ''test'' @ span_close))],
             JObj [(''title'', JStr ''Test case''), (''snippet'', JStr ''In software'')]])])]))
         ''Test'' 10)
     = Inr (''Found 2 Wikipedia articles:\<newline>\<newline>''
            @ ''Title: Test\<newline>Description: A test\<newline>URL: https://en.wikipedia.org/wiki/Test''
            @ ''\<newline>---\<newline>''
            @ ''Title: Test case\<newline>Description: In software\<newline>URL: https://en.wikipedia.org/wiki/Test_case'')
   \<and> snd (search_wikipedia (\<lambda>v. [])
         (\<lambda>r. Decoded (JObj [(''query'', JObj [(''search'', JList [])])])) ''Test'' 10)
     = Inr (''No Wikipedia articles found for query: '' @ quoted ''Test'')"
  using search_found_or_empty
    [where net = "\<lambda>r. Decoded (JObj [(''query'', JObj [(''search'', JList
            [JObj [(''title'', JStr ''Test''),
                   (''snippet'', JStr (''A '' @ span_open @ ''test'' @ span_close))],
             JObj [(''title'', JStr ''Test case''), (''snippet'', JStr ''In software'')]])])])"
       and query = "''Test''" and limit = 10 and rp = "\<lambda>v. []"
       and obj = "[(''query'', JObj [(''search'', JList
            [JObj [(''title'', JStr ''Test''),
                   (''snippet'', JStr (''A '' @ span_open @ ''test'' @ span_close))],
             JObj [(''title'', JStr ''Test case''), (''snippet'', JStr ''In software'')]])])]"
       and q = "[(''search'', JList
            [JObj [(''title'', JStr ''Test''),
                   (''snippet'', JStr (''A '' @ span_open @ ''test'' @ span_close))],
             JObj [(''title'', JStr ''Test case''), (''snippet'', JStr ''In software'')]])]"
       and hits = "[JObj [(''title'', JStr ''Test''),
                   (''snippet'', JStr (''A '' @ span_open @ ''test'' @ span_close))],
             JObj [(''title'', JStr ''Test case''), (''snippet'', JStr ''In software'')]]"
       and entries = "[''Title: Test\<newline>Description: A test\<newline>URL: https://en.wikipedia.org/wiki/Test'',
            ''Title: Test case\<newline>Description: In software\<newline>URL: https://en.wikipedia.org/wiki/Test_case'']"]
    search_found_or_empty
    [where net = "\<lambda>r. Decoded (JObj [(''query'', JObj [(''search'', JList [])])])"
       and query = "''Test''" and limit = 10 and rp = "\<lambda>v. []"
       and obj = "[(''query'', JObj [(''search'', JList [])])]"
       and q = "[(''search'', JList [])]" and hits = "[]"]
  by (simp add: payload_of_def span_open_def span_close_def format_search_result_def
      bind_res_def show_nat.simps quoted_def)

section \<open>Sections\<close>



lemma get_wikipedia_sections_absent:
  assumes "\<not> truthy (payload_of (net (wikipedia_request
             (sections_url title) None)))"
  shows "snd (get_wikipedia_sections rp net title)
           = Inr (''Unable to fetch sections for Wikipedia article '' @ quoted title @ ''.'')"
  using assms by (simp add: get_wikipedia_sections_def make_wikipedia_request_eq Let_def)

lemma get_wikipedia_sections_dict:
  assumes "payload_of (net (wikipedia_request
             (sections_url title) None))
           = JObj kvs"
  shows "snd (get_wikipedia_sections rp net title)
           = (case map_of kvs ''sections'' of
                None \<Rightarrow> Inr (''Unable to fetch sections for Wikipedia article ''
                              @ quoted title @ ''.'')
              | Some sections \<Rightarrow>
                  bind_res (format_article_sections rp sections) (\<lambda>formatted_sections.
                  Inr (''Sections for '' @ quoted title @ '':\<newline>'' @ formatted_sections)))"
proof (cases "map_of kvs ''sections''")
  case None
  then have "''sections'' \<notin> set (map fst kvs)" by (simp add: map_of_eq_None_iff)
  with None assms show ?thesis
    by (simp add: get_wikipedia_sections_def make_wikipedia_request_eq Let_def bind_res_def)
next
  case (Some v)
  then have "''sections'' \<in> set (map fst kvs)" by (rule map_of_Some_key)
  moreover from Some have "kvs \<noteq> []" by auto
  ultimately show ?thesis using Some assms
    by (simp add: get_wikipedia_sections_def make_wikipedia_request_eq Let_def bind_res_def)
qed

text \<open>
  C10. For a payload that is absent or a mapping, the sections tool returns its fallback
  exactly when the payload is absent or has no \<open>sections\<close> key; a \<open>sections\<close> key that
  holds the empty list gives the heading line followed by "No sections found.".
\<close>

theorem sections_fallback_exactly:
  assumes "payload_of (net (wikipedia_request
             (sections_url title) None))
           = data"
      and "data = JNull \<or> data = JObj kvs"
  shows "(snd (get_wikipedia_sections rp net title)
            = Inr (''Unable to fetch sections for Wikipedia article '' @ quoted title @ ''.'')
          \<longleftrightarrow> data = JNull \<or> map_of kvs ''sections'' = None)
       \<and> (data = JObj kvs \<and> map_of kvs ''sections'' = Some (JList []) \<longrightarrow>
            snd (get_wikipedia_sections rp net title)
              = Inr (''Sections for '' @ quoted title @ '':\<newline>No sections found.''))"
proof (cases "data = JNull")
  case True
  with assms(1) have "snd (get_wikipedia_sections rp net title)
           = Inr (''Unable to fetch sections for Wikipedia article '' @ quoted title @ ''.'')"
    by (intro get_wikipedia_sections_absent) simp
  with True show ?thesis by simp
next
  case False
  with assms have d: "payload_of (net (wikipedia_request
             (sections_url title) None))
           = JObj kvs" by simp
  note r = get_wikipedia_sections_dict [where net = net and rp = rp, OF d]
  show ?thesis
  proof (cases "map_of kvs ''sections''")
    case None
    with r False show ?thesis by simp
  next
    case (Some v)
    show ?thesis
    proof (cases "format_article_sections rp v")
      case (Inl e)
      with r Some False have "snd (get_wikipedia_sections rp net title) = Inl e"
        by (simp add: bind_res_def)
      moreover from Inl have "v \<noteq> JList []"
        by (auto simp: format_article_sections_def)
      ultimately show ?thesis using Some False by simp
    next
      case (Inr t)
      with r Some have res: "snd (get_wikipedia_sections rp net title)
          = Inr (''Sections for '' @ quoted title @ '':\<newline>'' @ t)"
        by (simp add: bind_res_def)
      have "v = JList [] \<Longrightarrow> t = ''No sections found.''"
        using Inr by (simp add: format_article_sections_def)
      with res Some False show ?thesis by auto
    qed
  qed
qed

theorem sections_fallback_exactly_witness:
  "snd (get_wikipedia_sections (\<lambda>v. []) (\<lambda>r. Decoded (JObj [(''sections'', JList [])])) ''Cat'')
     = Inr (''Sections for '' @ quoted ''Cat'' @ '':\<newline>No sections found.'')
   \<and> snd (get_wikipedia_sections (\<lambda>v. []) (\<lambda>r. Decoded (JObj [(''sections'', JList [])])) ''Cat'')
     \<noteq> Inr (''Unable to fetch sections for Wikipedia article '' @ quoted ''Cat'' @ ''.'')
   \<and> snd (get_wikipedia_sections (\<lambda>v. []) (\<lambda>r. Decoded (JObj [(''title'', JStr ''Cat'')])) ''Cat'')
     = Inr (''Unable to fetch sections for Wikipedia article '' @ quoted ''Cat'' @ ''.'')
   \<and> snd (get_wikipedia_sections (\<lambda>v. []) (\<lambda>r. Raised (HTTPStatusError 500)) ''Cat'')
     = Inr (''Unable to fetch sections for Wikipedia article '' @ quoted ''Cat'' @ ''.'')"
  using sections_fallback_exactly
      [where net = "\<lambda>r. Decoded (JObj [(''sections'', JList [])])" and title = "''Cat''"
         and data = "JObj [(''sections'', JList [])]" and kvs = "[(''sections'', JList [])]"
         and rp = "\<lambda>v. []"]
    sections_fallback_exactly
      [where net = "\<lambda>r. Decoded (JObj [(''title'', JStr ''Cat'')])" and title = "''Cat''"
         and data = "JObj [(''title'', JStr ''Cat'')]" and kvs = "[(''title'', JStr ''Cat'')]"
         and rp = "\<lambda>v. []"]
    sections_fallback_exactly
      [where net = "\<lambda>r. Raised (HTTPStatusError 500)" and title = "''Cat''"
         and data = JNull and kvs = "[]" and rp = "\<lambda>v. []"]
  by (simp add: payload_of_def)

section \<open>Article\<close>






section \<open>The section and summary formatters\<close>

lemma mapM_res_format_section:
  "mapM_res (format_section rp) (map JObj kvss)
     = Inr (map (\<lambda>kvs. ''- '' @ py_str rp (case map_of kvs ''line'' of
                                             None \<Rightarrow> JStr ''Unknown Section'' | Some l \<Rightarrow> l)) kvss)"
  by (induction kvss) (simp_all add: format_section_def bind_res_def)

text \<open>
  C7. The section formatter returns exactly "No sections found." on the empty list and
  on an absent one; on a non-empty list whose first ten entries are mappings it renders
  those entries and no more, in order, one line each, a dash and a space before the
  \<open>line\<close> field or before "Unknown Section" when the field is missing; so a list of 15
  gives exactly 10 lines.
\<close>

theorem format_article_sections_first_ten:
  assumes "secs \<noteq> []" and "take 10 secs = map JObj kvss"
  shows "format_article_sections rp (JList []) = Inr ''No sections found.''
       \<and> format_article_sections rp JNull = Inr ''No sections found.''
       \<and> format_article_sections rp (JList secs)
           = Inr (join_str ''\<newline>''
                   (map (\<lambda>kvs. ''- '' @ py_str rp (case map_of kvs ''line'' of
                                   None \<Rightarrow> JStr ''Unknown Section'' | Some l \<Rightarrow> l)) kvss))
       \<and> length kvss = min 10 (length secs)
       \<and> (length secs = 15 \<longrightarrow> length kvss = 10)
       \<and> (\<forall>l \<in> set (map (\<lambda>kvs. ''- '' @ py_str rp (case map_of kvs ''line'' of
                                   None \<Rightarrow> JStr ''Unknown Section'' | Some l \<Rightarrow> l)) kvss).
            take 2 l = ''- '')"
proof -
  have a: "format_article_sections rp (JList []) = Inr ''No sections found.''"
    by (simp add: format_article_sections_def)
  have b: "format_article_sections rp JNull = Inr ''No sections found.''"
    by (simp add: format_article_sections_def)
  have c: "format_article_sections rp (JList secs)
           = Inr (join_str ''\<newline>''
                   (map (\<lambda>kvs. ''- '' @ py_str rp (case map_of kvs ''line'' of
                                   None \<Rightarrow> JStr ''Unknown Section'' | Some l \<Rightarrow> l)) kvss))"
    using assms by (simp add: format_article_sections_def mapM_res_format_section bind_res_def)
  have "length (take 10 secs) = length (map JObj kvss)" using assms(2) by simp
  then have d: "length kvss = min 10 (length secs)" by simp
  have e: "\<forall>l \<in> set (map (\<lambda>kvs. ''- '' @ py_str rp (case map_of kvs ''line'' of
                                   None \<Rightarrow> JStr ''Unknown Section'' | Some l \<Rightarrow> l)) kvss).
            take 2 l = ''- ''"
    by simp
  from a b c d e show ?thesis by simp
qed

theorem format_article_sections_first_ten_witness:
  "format_article_sections (\<lambda>v. [])
     (JList (map (\<lambda>n. JObj [(''line'', JStr (''S'' @ show_nat n))]) [1..<11]
             @ map (\<lambda>n. JObj [(''toclevel'', JInt 1)]) [11..<16]))
   = Inr ''- S1\<newline>- S2\<newline>- S3\<newline>- S4\<newline>- S5\<newline>- S6\<newline>- S7\<newline>- S8\<newline>- S9\<newline>- S10''
   \<and> format_article_sections (\<lambda>v. []) (JList [JObj [(''toclevel'', JInt 1)]])
   = Inr ''- Unknown Section''"
  using format_article_sections_first_ten
     [where secs = "map (\<lambda>n. JObj [(''line'', JStr (''S'' @ show_nat n))]) [1..<11]
             @ map (\<lambda>n. JObj [(''toclevel'', JInt 1)]) [11..<16]"
        and kvss = "map (\<lambda>n. [(''line'', JStr (''S'' @ show_nat n))]) [1..<11]"
        and rp = "\<lambda>v. []"]
   format_article_sections_first_ten
     [where secs = "[JObj [(''toclevel'', JInt 1)]]" and kvss = "[[(''toclevel'', JInt 1)]]"
        and rp = "\<lambda>v. []"]
  by (simp add: upt_rec show_nat.simps)

text \<open>
  C9, as the spec states it, fails: a mapping payload whose \<open>content_urls\<close> field is
  present but is no mapping (here the JSON \<^verbatim>\<open>null\<close>) makes the formatter raise.
\<close>

theorem format_article_summary_not_total:
  "format_article_summary (\<lambda>v. []) (JObj [(''title'', JStr ''Cat''), (''content_urls'', JNull)])
     = Inl AttributeError"
  by (simp add: format_article_summary_def bind_res_def)

text \<open>
  C9, amended. On every mapping payload in which \<open>content_urls\<close>, when present, is a
  mapping and its \<open>desktop\<close> field, when present, is a mapping, the summary formatter
  returns a text: the title (default "Unknown"), the extract (default "No summary
  available") and the URL read at \<open>content_urls.desktop.page\<close>, empty when any of the
  three levels is absent.
\<close>

theorem format_article_summary_defaults:
  assumes "map_of kvs ''content_urls'' = None \<or> map_of kvs ''content_urls'' = Some (JObj cu)"
      and "map_of cu ''desktop'' = None \<or> map_of cu ''desktop'' = Some (JObj desktop)"
  shows "format_article_summary rp (JObj kvs)
           = Inr (''Title: ''
                  @ py_str rp (case map_of kvs ''title'' of None \<Rightarrow> JStr ''Unknown'' | Some t \<Rightarrow> t)
                  @ ''\<newline>Summary: ''
                  @ py_str rp (case map_of kvs ''extract'' of
                                None \<Rightarrow> JStr ''No summary available'' | Some e \<Rightarrow> e)
                  @ ''\<newline>URL: ''
                  @ (case map_of kvs ''content_urls'' of None \<Rightarrow> ''''
                     | Some c \<Rightarrow>
                        (case map_of cu ''desktop'' of None \<Rightarrow> ''''
                         | Some d \<Rightarrow>
                            (case map_of desktop ''page'' of None \<Rightarrow> ''''
                             | Some p \<Rightarrow> py_str rp p))))"
  using assms
  by (auto simp: format_article_summary_def bind_res_def split: option.splits)

theorem format_article_summary_defaults_witness:
  "format_article_summary (\<lambda>v. [])
     (JObj [(''title'', JStr ''Cat''), (''extract'', JStr ''The cat is a small mammal.''),
            (''content_urls'', JObj [(''desktop'',
                JObj [(''page'', JStr ''https://en.wikipedia.org/wiki/Cat'')])])])
     = Inr ''Title: Cat\<newline>Summary: The cat is a small mammal.\<newline>URL: https://en.wikipedia.org/wiki/Cat''
   \<and> format_article_summary (\<lambda>v. []) (JObj [(''content_urls'', JObj [(''mobile'', JObj [])])])
     = Inr ''Title: Unknown\<newline>Summary: No summary available\<newline>URL: ''
   \<and> format_article_summary (\<lambda>v. []) (JObj [])
     = Inr ''Title: Unknown\<newline>Summary: No summary available\<newline>URL: ''"
  using format_article_summary_defaults
     [where kvs = "[(''title'', JStr ''Cat''), (''extract'', JStr ''The cat is a small mammal.''),
            (''content_urls'', JObj [(''desktop'',
                JObj [(''page'', JStr ''https://en.wikipedia.org/wiki/Cat'')])])]"
        and cu = "[(''desktop'', JObj [(''page'', JStr ''https://en.wikipedia.org/wiki/Cat'')])]"
        and desktop = "[(''page'', JStr ''https://en.wikipedia.org/wiki/Cat'')]" and rp = "\<lambda>v. []"]
   format_article_summary_defaults
     [where kvs = "[(''content_urls'', JObj [(''mobile'', JObj [])])]"
        and cu = "[(''mobile'', JObj [])]" and desktop = "[]" and rp = "\<lambda>v. []"]
   format_article_summary_defaults
     [where kvs = "[]" and cu = "[]" and desktop = "[]" and rp = "\<lambda>v. []"]
  by simp

section \<open>The search formatter\<close>

lemma replace_str_skip:
  "old \<noteq> [] \<Longrightarrow> hd old \<notin> set u \<Longrightarrow> replace_str old new (u @ v) = u @ replace_str old new v"
proof (induction u)
  case Nil
  then show ?case by simp
next
  case (Cons c u)
  from Cons.prems have "take (length old) (c # u @ v) \<noteq> old"
    by (cases old) auto
  with Cons show ?case by simp
qed

lemma replace_str_hit:
  "old \<noteq> [] \<Longrightarrow> replace_str old new (old @ v) = new @ replace_str old new v"
  by (cases old) simp_all

lemma replace_str_single:
  "replace_str [a] [b] s = map (\<lambda>c. if c = a then b else c) s"
  by (induction s) simp_all

lemma replace_str_absent:
  "old \<noteq> [] \<Longrightarrow> \<not> contains old s \<Longrightarrow> replace_str old new s = s"
  by (induction s) simp_all

lemma span_open_skips_close:
  "replace_str span_open new (span_close @ v) = span_close @ replace_str span_open new v"
  by (simp add: span_open_def span_close_def)

lemma first_pass:
  "\<forall>p \<in> set ps. markup_free p \<Longrightarrow>
   replace_str span_open [] (render ps) = render (filter (\<lambda>p. p \<noteq> Open_mark) ps)"
proof (induction ps)
  case Nil
  then show ?case by (simp add: span_open_def)
next
  case (Cons p ps)
  show ?case
  proof (cases p)
    case (Plain s)
    with Cons.prems have "hd span_open \<notin> set s" by (simp add: span_open_def)
    moreover have "span_open \<noteq> []" by (simp add: span_open_def)
    ultimately show ?thesis using Cons Plain by (simp add: replace_str_skip)
  next
    case Open_mark
    have "span_open \<noteq> []" by (simp add: span_open_def)
    then show ?thesis using Cons Open_mark by (simp add: replace_str_hit)
  next
    case Close_mark
    then show ?thesis using Cons by (simp add: span_open_skips_close)
  qed
qed

lemma second_pass:
  "\<forall>p \<in> set ps. markup_free p \<Longrightarrow>
   replace_str span_close [] (render (filter (\<lambda>p. p \<noteq> Open_mark) ps)) = plain_text ps"
proof (induction ps)
  case Nil
  then show ?case by (simp add: span_close_def)
next
  case (Cons p ps)
  show ?case
  proof (cases p)
    case (Plain s)
    with Cons.prems have "hd span_close \<notin> set s" by (simp add: span_close_def)
    moreover have "span_close \<noteq> []" by (simp add: span_close_def)
    ultimately show ?thesis using Cons Plain by (simp add: replace_str_skip)
  next
    case Open_mark
    then show ?thesis using Cons by simp
  next
    case Close_mark
    have "span_close \<noteq> []" by (simp add: span_close_def)
    then show ?thesis using Cons Close_mark by (simp add: replace_str_hit)
  qed
qed

text \<open>
  C8. On a hit whose title and snippet are strings or missing, the search formatter
  defaults the title to "Unknown" and the snippet to "No description available", removes
  the occurrences of the two highlight marks from the snippet by exact match (the opening
  mark first, then the closing one), and builds the URL from the fixed article prefix and
  the title with every space turned into an underscore. For a snippet made of plain text
  and marks, the description is the plain text with every mark gone.
\<close>

theorem format_search_result_text:
  assumes "map_of kvs ''title'' = map_option JStr title_opt"
      and "map_of kvs ''snippet'' = map_option JStr snippet_opt"
      and "title = (case title_opt of None \<Rightarrow> ''Unknown'' | Some t \<Rightarrow> t)"
      and "snippet = (case snippet_opt of None \<Rightarrow> ''No description available'' | Some s \<Rightarrow> s)"
  shows "format_search_result rp (JObj kvs)
           = Inr (''Title: '' @ title
                  @ ''\<newline>Description: ''
                  @ replace_str span_close [] (replace_str span_open [] snippet)
                  @ ''\<newline>URL: https://en.wikipedia.org/wiki/''
                  @ map (\<lambda>c. if c = CHR '' '' then CHR ''_'' else c) title)
       \<and> ((\<forall>p \<in> set ps. markup_free p) \<and> snippet = render ps \<longrightarrow>
            replace_str span_close [] (replace_str span_open [] snippet) = plain_text ps)"
proof -
  have a: "format_search_result rp (JObj kvs)
           = Inr (''Title: '' @ title
                  @ ''\<newline>Description: ''
                  @ replace_str span_close [] (replace_str span_open [] snippet)
                  @ ''\<newline>URL: https://en.wikipedia.org/wiki/''
                  @ map (\<lambda>c. if c = CHR '' '' then CHR ''_'' else c) title)"
    using assms
    by (cases title_opt; cases snippet_opt)
       (simp_all add: format_search_result_def bind_res_def replace_str_single)
  have b: "(\<forall>p \<in> set ps. markup_free p) \<and> snippet = render ps \<longrightarrow>
            replace_str span_close [] (replace_str span_open [] snippet) = plain_text ps"
    by (simp add: first_pass second_pass)
  from a b show ?thesis by simp
qed

theorem format_search_result_text_witness:
  "format_search_result (\<lambda>v. [])
     (JObj [(''title'', JStr ''Cat_food''),
            (''snippet'', JStr (span_open @ ''Cat'' @ span_close @ '' food''))])
     = Inr ''Title: Cat_food\<newline>Description: Cat food\<newline>URL: https://en.wikipedia.org/wiki/Cat_food''
   \<and> format_search_result (\<lambda>v. []) (JObj [(''title'', JStr ''Cat food'')])
     = Inr ''Title: Cat food\<newline>Description: No description available\<newline>URL: https://en.wikipedia.org/wiki/Cat_food''
   \<and> format_search_result (\<lambda>v. []) (JObj [])
     = Inr ''Title: Unknown\<newline>Description: No description available\<newline>URL: https://en.wikipedia.org/wiki/Unknown''"
  using format_search_result_text
     [where kvs = "[(''title'', JStr ''Cat_food''),
            (''snippet'', JStr (span_open @ ''Cat'' @ span_close @ '' food''))]"
        and title_opt = "Some ''Cat_food''"
        and snippet_opt = "Some (span_open @ ''Cat'' @ span_close @ '' food'')"
        and title = "''Cat_food''" and snippet = "span_open @ ''Cat'' @ span_close @ '' food''"
        and ps = "[Open_mark, Plain ''Cat'', Close_mark, Plain '' food'']" and rp = "\<lambda>v. []"]
    format_search_result_text
     [where kvs = "[(''title'', JStr ''Cat food'')]"
        and title_opt = "Some ''Cat food''" and snippet_opt = None
        and title = "''Cat food''" and snippet = "''No description available''"
        and ps = "[Plain ''No description available'']" and rp = "\<lambda>v. []"]
    format_search_result_text
     [where kvs = "[]" and title_opt = None and snippet_opt = None
        and title = "''Unknown''" and snippet = "''No description available''"
        and ps = "[Plain ''No description available'']" and rp = "\<lambda>v. []"]
  by simp

section \<open>Related topics\<close>

lemma mapM_res_category_titles:
  "map (\<lambda>e. map_of e ''title'') entries = map (\<lambda>t. Some (JStr t)) titles \<Longrightarrow>
   mapM_res (\<lambda>cat. bind_res (subscript cat ''title'') (\<lambda>t. replace_method t ''Category:'' ''''))
     (map JObj entries)
   = Inr (map (replace_str ''Category:'' '''') titles)"
proof (induction entries arbitrary: titles)
  case Nil
  then show ?case by simp
next
  case (Cons e entries)
  then obtain t ts where ts: "titles = t # ts" by (cases titles) auto
  with Cons.prems have "map_of e ''title'' = Some (JStr t)"
    and "map (\<lambda>e. map_of e ''title'') entries = map (\<lambda>t. Some (JStr t)) ts" by auto
  with Cons.IH [of ts] ts show ?case by (simp add: bind_res_def)
qed

text \<open>
  C6, amended. The related-topics tool asks the server for 20 categories whatever the
  limit; from each category title it removes every occurrence of "Category:" (a title
  that is "Category:" followed by text without a further occurrence loses exactly that
  prefix); it cuts the list with the slice \<^verbatim>\<open>[:limit]\<close>, which for a limit of zero or more
  keeps the first \<open>limit\<close> topics; and it renders each remaining topic on a line of its
  own after a dash and a space.
\<close>

theorem related_topics_text:
  assumes "payload_of (net (wikipedia_request WIKIPEDIA_SEARCH_API
                              (Some (categories_params title)))) = JObj obj"
      and "map_of obj ''query'' = Some (JObj q)"
      and "map_of q ''pages'' = Some (JObj ((pid, JObj page) # others))"
      and "map_of page ''categories'' = Some (JList (map JObj entries))"
      and "map (\<lambda>e. map_of e ''title'') entries = map (\<lambda>t. Some (JStr t)) titles"
  shows "map (sent_param ''cllimit'') (fst (get_related_topics net title limit)) = [Some (JInt 20)]
       \<and> snd (get_related_topics net title limit)
           = Inr (''Topics related to '' @ quoted title @ '':\<newline>''
                  @ join_str ''\<newline>''
                      (map (\<lambda>topic. ''- '' @ topic)
                         (py_slice_to limit (map (replace_str ''Category:'' '''') titles))))
       \<and> (0 \<le> limit \<longrightarrow>
            py_slice_to limit (map (replace_str ''Category:'' '''') titles)
              = take (nat limit) (map (replace_str ''Category:'' '''') titles))
       \<and> (\<not> contains ''Category:'' rest \<longrightarrow>
            replace_str ''Category:'' '''' (''Category:'' @ rest) = rest)"
proof -
  have a: "map (sent_param ''cllimit'') (fst (get_related_topics net title limit))
             = [Some (JInt 20)]"
    by (simp add: get_related_topics_sent sent_param_def wikipedia_request_def
        categories_params_def)
  have k1: "''query'' \<in> set (map fst obj)" using assms(2) by (rule map_of_Some_key)
  have k2: "''pages'' \<in> set (map fst q)" using assms(3) by (rule map_of_Some_key)
  have k3: "''categories'' \<in> set (map fst page)" using assms(4) by (rule map_of_Some_key)
  have n1: "obj \<noteq> []" using assms(2) by (rule map_of_Some_nonempty)
  have dash: "(@) ''- '' = (\<lambda>topic. CHR ''-'' # CHR '' '' # topic)"
    by (rule ext) simp
  have b: "snd (get_related_topics net title limit)
           = Inr (''Topics related to '' @ quoted title @ '':\<newline>''
                  @ join_str ''\<newline>''
                      (map (\<lambda>topic. ''- '' @ topic)
                         (py_slice_to limit (map (replace_str ''Category:'' '''') titles))))"
    using assms(1-4) k1 k2 k3 n1 mapM_res_category_titles [OF assms(5)]
    by (simp add: get_related_topics_def make_wikipedia_request_eq Let_def bind_res_def dash)
  have c: "0 \<le> limit \<longrightarrow>
            py_slice_to limit (map (replace_str ''Category:'' '''') titles)
              = take (nat limit) (map (replace_str ''Category:'' '''') titles)"
    by (simp add: py_slice_to_def)
  have d: "\<not> contains ''Category:'' rest \<longrightarrow>
            replace_str ''Category:'' '''' (''Category:'' @ rest) = rest"
    using replace_str_hit [of "''Category:''" "''''" rest]
      replace_str_absent [of "''Category:''" rest "''''"] by simp
  from a b c d show ?thesis by blast
qed

theorem related_topics_text_witness:
  "snd (get_related_topics
     (\<lambda>r. Decoded (JObj [(''query'', JObj [(''pages'', JObj [(''6678'',
        JObj [(''categories'', JList [JObj [(''title'', JStr ''Category:Felines'')],
                                      JObj [(''title'', JStr ''Category:Cats'')],
                                      JObj [(''title'', JStr ''Category:Pets'')]])])])])]))
     ''Cat'' 2)
   = Inr (''Topics related to '' @ quoted ''Cat'' @ '':\<newline>- Felines\<newline>- Cats'')"
  using related_topics_text
    [where net = "\<lambda>r. Decoded (JObj [(''query'', JObj [(''pages'', JObj [(''6678'',
        JObj [(''categories'', JList [JObj [(''title'', JStr ''Category:Felines'')],
                                      JObj [(''title'', JStr ''Category:Cats'')],
                                      JObj [(''title'', JStr ''Category:Pets'')]])])])])])"
      and title = "''Cat''" and limit = 2
      and obj = "[(''query'', JObj [(''pages'', JObj [(''6678'',
        JObj [(''categories'', JList [JObj [(''title'', JStr ''Category:Felines'')],
                                      JObj [(''title'', JStr ''Category:Cats'')],
                                      JObj [(''title'', JStr ''Category:Pets'')]])])])])]"
      and q = "[(''pages'', JObj [(''6678'',
        JObj [(''categories'', JList [JObj [(''title'', JStr ''Category:Felines'')],
                                      JObj [(''title'', JStr ''Category:Cats'')],
                                      JObj [(''title'', JStr ''Category:Pets'')]])])])]"
      and pid = "''6678''" and others = "[]"
      and page = "[(''categories'', JList [JObj [(''title'', JStr ''Category:Felines'')],
                                      JObj [(''title'', JStr ''Category:Cats'')],
                                      JObj [(''title'', JStr ''Category:Pets'')]])]"
      and entries = "[[(''title'', JStr ''Category:Felines'')],
                      [(''title'', JStr ''Category:Cats'')],
                      [(''title'', JStr ''Category:Pets'')]]"
      and titles = "[''Category:Felines'', ''Category:Cats'', ''Category:Pets'']"
      and rest = "''Felines''"]
  by (simp add: payload_of_def py_slice_to_def)

text \<open>
  C6, as the spec states it, fails: the code does not strip a prefix, it removes every
  occurrence. The category title "Category:A Category:B" gives the line "- A B", where
  stripping the prefix would give "- A Category:B".
\<close>

theorem related_topics_not_prefix_strip:
  "snd (get_related_topics
     (\<lambda>r. Decoded (JObj [(''query'', JObj [(''pages'', JObj [(''6678'',
        JObj [(''categories'', JList [JObj [(''title'', JStr ''Category:A Category:B'')]])])])])]))
     ''Cat'' 10)
   = Inr (''Topics related to '' @ quoted ''Cat'' @ '':\<newline>- A B'')
   \<and> ''- '' @ spec_strip_prefix ''Category:'' ''Category:A Category:B'' = ''- A Category:B''"
  by (simp add: get_related_topics_def make_wikipedia_request_eq Let_def bind_res_def
      payload_of_def py_slice_to_def spec_strip_prefix_def)

section \<open>Links\<close>

lemma mapM_res_link_titles:
  "map (\<lambda>e. map_of e ''title'') entries = map Some titles \<Longrightarrow>
   mapM_res (\<lambda>link. subscript link ''title'') (map JObj entries) = Inr titles"
proof (induction entries arbitrary: titles)
  case Nil
  then show ?case by simp
next
  case (Cons e entries)
  then obtain t ts where ts: "titles = t # ts" by (cases titles) auto
  with Cons.prems have "map_of e ''title'' = Some t"
    and "map (\<lambda>e. map_of e ''title'') entries = map Some ts" by auto
  with Cons.IH [of ts] ts show ?case by simp
qed

text \<open>
  The links tool on a payload of the expected shape: a first page without a \<open>links\<close>
  field gives the no-links text; a first page whose links all carry a title gives the
  heading with their number and one line per link, a dash and a space before the title.
\<close>

theorem links_text:
  assumes "payload_of (net (wikipedia_request WIKIPEDIA_SEARCH_API
                              (Some (links_params title limit)))) = JObj obj"
      and "map_of obj ''query'' = Some (JObj q)"
      and "map_of q ''pages'' = Some (JObj ((pid, JObj page) # others))"
  shows "(map_of page ''links'' = None \<longrightarrow>
            snd (get_wikipedia_links rp net title limit)
              = Inr (''No links found in Wikipedia article '' @ quoted title @ ''.''))
       \<and> (map_of page ''links'' = Some (JList (map JObj entries))
            \<and> map (\<lambda>e. map_of e ''title'') entries = map Some titles \<longrightarrow>
            snd (get_wikipedia_links rp net title limit)
              = Inr (''Links in '' @ quoted title @ '' (showing '' @ show_nat (length entries)
                     @ '' links):\<newline>''
                     @ join_str ''\<newline>'' (map (\<lambda>link. ''- '' @ py_str rp link) titles)))"
proof -
  have k1: "''query'' \<in> set (map fst obj)" using assms(2) by (rule map_of_Some_key)
  have k2: "''pages'' \<in> set (map fst q)" using assms(3) by (rule map_of_Some_key)
  have n1: "obj \<noteq> []" using assms(2) by (rule map_of_Some_nonempty)
  have a: "snd (get_wikipedia_links rp net title limit)
              = Inr (''No links found in Wikipedia article '' @ quoted title @ ''.'')"
    if "map_of page ''links'' = None"
  proof -
    from that have "''links'' \<notin> set (map fst page)" by (simp add: map_of_eq_None_iff)
    with assms k1 k2 n1 show ?thesis
      by (simp add: get_wikipedia_links_def make_wikipedia_request_eq Let_def bind_res_def)
  qed
  have b: "snd (get_wikipedia_links rp net title limit)
              = Inr (''Links in '' @ quoted title @ '' (showing '' @ show_nat (length entries)
                     @ '' links):\<newline>''
                     @ join_str ''\<newline>'' (map (\<lambda>link. ''- '' @ py_str rp link) titles))"
    if l: "map_of page ''links'' = Some (JList (map JObj entries))"
      and t: "map (\<lambda>e. map_of e ''title'') entries = map Some titles"
  proof -
    have k3: "''links'' \<in> set (map fst page)" using l by (rule map_of_Some_key)
    have len: "length titles = length entries"
      using arg_cong [OF t, of length] by simp
    from assms k1 k2 k3 n1 l mapM_res_link_titles [OF t] len show ?thesis
      by (simp add: get_wikipedia_links_def make_wikipedia_request_eq Let_def bind_res_def)
  qed
  from a b show ?thesis by blast
qed

theorem links_text_witness:
  "snd (get_wikipedia_links (\<lambda>v. [])
     (\<lambda>r. Decoded (JObj [(''query'', JObj [(''pages'', JObj [(''6678'',
        JObj [(''links'', JList [JObj [(''ns'', JInt 0), (''title'', JStr ''Felidae'')],
                                 JObj [(''ns'', JInt 0), (''title'', JStr ''Kitten'')]])])])])]))
     ''Cat'' 20)
   = Inr (''Links in '' @ quoted ''Cat'' @ '' (showing 2 links):\<newline>- Felidae\<newline>- Kitten'')"
  using links_text
    [where net = "\<lambda>r. Decoded (JObj [(''query'', JObj [(''pages'', JObj [(''6678'',
        JObj [(''links'', JList [JObj [(''ns'', JInt 0), (''title'', JStr ''Felidae'')],
                                 JObj [(''ns'', JInt 0), (''title'', JStr ''Kitten'')]])])])])])"
      and title = "''Cat''" and limit = 20 and rp = "\<lambda>v. []"
      and obj = "[(''query'', JObj [(''pages'', JObj [(''6678'',
        JObj [(''links'', JList [JObj [(''ns'', JInt 0), (''title'', JStr ''Felidae'')],
                                 JObj [(''ns'', JInt 0), (''title'', JStr ''Kitten'')]])])])])]"
      and q = "[(''pages'', JObj [(''6678'',
        JObj [(''links'', JList [JObj [(''ns'', JInt 0), (''title'', JStr ''Felidae'')],
                                 JObj [(''ns'', JInt 0), (''title'', JStr ''Kitten'')]])])])]"
      and pid = "''6678''" and others = "[]"
      and page = "[(''links'', JList [JObj [(''ns'', JInt 0), (''title'', JStr ''Felidae'')],
                                 JObj [(''ns'', JInt 0), (''title'', JStr ''Kitten'')]])]"
      and entries = "[[(''ns'', JInt 0), (''title'', JStr ''Felidae'')],
                      [(''ns'', JInt 0), (''title'', JStr ''Kitten'')]]"
      and titles = "[JStr ''Felidae'', JStr ''Kitten'']"]
  by (simp add: payload_of_def show_nat.simps)

end
